theory Spec2Isabelle
  imports Main "HOL-Library.Word"
begin

section \<open>Data model\<close>

text \<open>
  Users are identified by a \<^verbatim>\<open>uuid.UUID\<close> (16 bytes), roles and permissions by a Go
  \<^verbatim>\<open>uint\<close> (64 bits on the platforms the module targets).
\<close>

type_synonym uuid = "128 word"
type_synonym uint = "64 word"

text \<open>
  Modelled from the spec: the package \<^verbatim>\<open>models\<close> is not among the sources. A role and
  a permission are identified by a numeric surrogate key; the repository reads nothing
  but the \<^verbatim>\<open>ID\<close> field of either (stored in a \<^verbatim>\<open>uint\<close> column of the pivot row), so
  that is the one field kept.
\<close>

record Role =
  ID :: uint

record Permission =
  ID :: uint

text \<open>
  Modelled from the spec: the package \<^verbatim>\<open>collections\<close> (types \<^verbatim>\<open>collections.Role\<close> and
  \<^verbatim>\<open>collections.Permission\<close> with \<^verbatim>\<open>Origin\<close>, \<^verbatim>\<open>IDs\<close> and \<^verbatim>\<open>Len\<close>) is not among the
  sources. The spec describes a collection with stable iteration order that does not
  enforce uniqueness, whose size is the number of its elements: a list of entities,
  \<^verbatim>\<open>Origin\<close> the list itself, \<^verbatim>\<open>IDs\<close> the identifiers in order, \<^verbatim>\<open>Len\<close> the length
  (an \<^verbatim>\<open>int64\<close>; it is compared with a row count, neither can overflow).
\<close>

type_synonym collections_Role = "Role list"
type_synonym collections_Permission = "Permission list"

definition Role_Origin :: "collections_Role \<Rightarrow> Role list" where
  "Role_Origin u = u"

definition Role_IDs :: "collections_Role \<Rightarrow> uint list" where
  "Role_IDs u = map Role.ID u"

definition Role_Len :: "collections_Role \<Rightarrow> int" where
  "Role_Len u = int (length u)"

definition Permission_Origin :: "collections_Permission \<Rightarrow> Permission list" where
  "Permission_Origin u = u"

definition Permission_IDs :: "collections_Permission \<Rightarrow> uint list" where
  "Permission_IDs u = map Permission.ID u"

definition Permission_Len :: "collections_Permission \<Rightarrow> int" where
  "Permission_Len u = int (length u)"

text \<open>
  The pivot rows (\<^verbatim>\<open>models/pivot\<close>). Both fields of a row are tagged \<^verbatim>\<open>primary_key\<close>:
  the row is its own key.
\<close>

record UserRoles =
  UserID :: uuid
  RoleID :: uint

record UserPermissions =
  UserID :: uuid
  PermissionID :: uint

section \<open>The storage handle\<close>

text \<open>
  Modelled from the spec: \<^verbatim>\<open>repository.Database\<close> is a handle on a relational store, an
  external library (\<^verbatim>\<open>gorm.DB\<close>) whose code is not part of the repository. The spec
  abstracts it as "execute insert with conflict-ignore", "execute delete matching
  predicate", "execute count matching predicate" and "run block inside transaction",
  with one class of error, the storage failure. It is modelled by that contract:
  a statement either fails with a storage error and changes nothing, or succeeds and
  takes effect; whatever makes the store refuse a statement is a storage error.

  The handle holds the two association tables (rows in insertion order) and the
  outcomes the store will give to the statements to come, first statement first
  (\<open>None\<close>: the statement succeeds; past the end of the list every statement
  succeeds). That list is how a connection loss or an aborted transaction enters a run
  of the model.

  One refusal is the library's own and does not depend on the store: a delete that ends
  up without any condition is not sent at all and fails with
  \<^verbatim>\<open>gorm.ErrMissingWhereClause\<close> ("WHERE conditions required").
\<close>

datatype error =
    StorageError string
  | ErrMissingWhereClause

record Database =
  user_roles :: "UserRoles list"
  user_permissions :: "UserPermissions list"
  faults :: "error option list"

definition next_fault :: "Database \<Rightarrow> error option \<times> Database" where
  "next_fault db =
     (case faults db of
        [] \<Rightarrow> (None, db)
      | f # fs \<Rightarrow> (f, db\<lparr>faults := fs\<rparr>))"

text \<open>One statement: on a storage error nothing is written.\<close>

definition exec_stmt :: "(Database \<Rightarrow> Database) \<Rightarrow> Database \<Rightarrow> error option \<times> Database" where
  "exec_stmt effect db =
     (case next_fault db of
        (Some err, db') \<Rightarrow> (Some err, db')
      | (None, db') \<Rightarrow> (None, effect db'))"

text \<open>
  \<^verbatim>\<open>Clauses(clause.OnConflict{DoNothing: true}).Create(&rows)\<close>: the rows are inserted
  in order, and a row whose key is in the table already (from before the statement, or
  from an earlier row of the same statement) is skipped. An insert that is refused, by
  the store or by the library in front of it, writes nothing and is an outcome of the
  handle.
\<close>

primrec insert_ignore :: "'a list \<Rightarrow> 'a list \<Rightarrow> 'a list" where
  "insert_ignore [] tbl = tbl"
| "insert_ignore (r # rs) tbl = insert_ignore rs (if r \<in> set tbl then tbl else tbl @ [r])"

definition Create_UserRoles :: "UserRoles list \<Rightarrow> Database \<Rightarrow> error option \<times> Database" where
  "Create_UserRoles rows =
     exec_stmt (\<lambda>db. db\<lparr>user_roles := insert_ignore rows (user_roles db)\<rparr>)"

definition Create_UserPermissions ::
  "UserPermissions list \<Rightarrow> Database \<Rightarrow> error option \<times> Database" where
  "Create_UserPermissions rows =
     exec_stmt (\<lambda>db. db\<lparr>user_permissions := insert_ignore rows (user_permissions db)\<rparr>)"

text \<open>
  \<^verbatim>\<open>Where(cond).Delete(&pivot.UserRoles{})\<close> deletes the rows that satisfy the condition.
\<close>

definition Delete_UserRoles_Where ::
  "(UserRoles \<Rightarrow> bool) \<Rightarrow> Database \<Rightarrow> error option \<times> Database" where
  "Delete_UserRoles_Where cond =
     exec_stmt (\<lambda>db. db\<lparr>user_roles := filter (\<lambda>r. \<not> cond r) (user_roles db)\<rparr>)"

definition Delete_UserPermissions_Where ::
  "(UserPermissions \<Rightarrow> bool) \<Rightarrow> Database \<Rightarrow> error option \<times> Database" where
  "Delete_UserPermissions_Where cond =
     exec_stmt (\<lambda>db. db\<lparr>user_permissions := filter (\<lambda>r. \<not> cond r) (user_permissions db)\<rparr>)"

text \<open>
  \<^verbatim>\<open>Delete(&rows)\<close> on a slice, without a \<^verbatim>\<open>Where\<close>: the library builds the condition
  from the primary keys of the elements, \<^verbatim>\<open>(user_id, role_id) IN (...)\<close>. An element
  whose primary key fields are all zero (the nil UUID with ID 0) counts as having no key
  and contributes nothing to that list; an element with one zero field is listed as it
  is. When no element is listed (the slice is empty, or holds all-zero elements only)
  the delete has no condition: it is refused with \<^verbatim>\<open>ErrMissingWhereClause\<close> before any
  statement reaches the store. Otherwise the one statement deletes the rows whose key
  is listed.
\<close>

definition Delete_UserRoles :: "UserRoles list \<Rightarrow> Database \<Rightarrow> error option \<times> Database" where
  "Delete_UserRoles rows db =
     (let keys = filter (\<lambda>r. \<not> (UserRoles.UserID r = 0 \<and> RoleID r = 0)) rows
      in if keys = [] then (Some ErrMissingWhereClause, db)
         else Delete_UserRoles_Where (\<lambda>r. r \<in> set keys) db)"

definition Delete_UserPermissions ::
  "UserPermissions list \<Rightarrow> Database \<Rightarrow> error option \<times> Database" where
  "Delete_UserPermissions rows db =
     (let keys = filter (\<lambda>r. \<not> (UserPermissions.UserID r = 0 \<and> PermissionID r = 0)) rows
      in if keys = [] then (Some ErrMissingWhereClause, db)
         else Delete_UserPermissions_Where (\<lambda>r. r \<in> set keys) db)"

text \<open>
  \<^verbatim>\<open>Table(t).Where(cond).Count(&count)\<close>: the number of rows that satisfy the condition is
  written through the pointer. The second argument is the value the variable holds
  before the call; a statement that fails leaves it as it is.
\<close>

definition Count_user_roles ::
  "(UserRoles \<Rightarrow> bool) \<Rightarrow> int \<Rightarrow> Database \<Rightarrow> int \<times> error option \<times> Database" where
  "Count_user_roles cond count db =
     (case next_fault db of
        (Some err, db') \<Rightarrow> (count, Some err, db')
      | (None, db') \<Rightarrow> (int (length (filter cond (user_roles db'))), None, db'))"

definition Count_user_permissions ::
  "(UserPermissions \<Rightarrow> bool) \<Rightarrow> int \<Rightarrow> Database \<Rightarrow> int \<times> error option \<times> Database" where
  "Count_user_permissions cond count db =
     (case next_fault db of
        (Some err, db') \<Rightarrow> (count, Some err, db')
      | (None, db') \<Rightarrow> (int (length (filter cond (user_permissions db'))), None, db'))"

text \<open>
  \<^verbatim>\<open>Database.Transaction(fc)\<close>: begin, run the block on the transaction handle, commit
  when the block returns no error, roll back when the block or the commit fails, and
  return that error. Beginning and committing are statements of the store and may fail.
  The transaction handle keeps the state at its beginning; \<^verbatim>\<open>Rollback\<close> restores the
  tables from it (a second \<^verbatim>\<open>Rollback\<close> changes nothing more).
\<close>

record Tx =
  snapshot :: Database
  conn :: Database

definition Rollback :: "Tx \<Rightarrow> Tx" where
  "Rollback tx =
     tx\<lparr>conn := (conn tx)\<lparr>user_roles := user_roles (snapshot tx),
                           user_permissions := user_permissions (snapshot tx)\<rparr>\<rparr>"

definition tx_exec :: "(Database \<Rightarrow> error option \<times> Database) \<Rightarrow> Tx \<Rightarrow> error option \<times> Tx" where
  "tx_exec stmt tx = (case stmt (conn tx) of (err, c) \<Rightarrow> (err, tx\<lparr>conn := c\<rparr>))"

definition Transaction ::
  "(Tx \<Rightarrow> error option \<times> Tx) \<Rightarrow> Database \<Rightarrow> error option \<times> Database" where
  "Transaction fc db =
     (case next_fault db of
        (Some err, db') \<Rightarrow> (Some err, db')
      | (None, db') \<Rightarrow>
          (case fc \<lparr>snapshot = db', conn = db'\<rparr> of
             (Some err, tx) \<Rightarrow> (Some err, conn (Rollback tx))
           | (None, tx) \<Rightarrow>
               (case next_fault (conn tx) of
                  (Some err, c) \<Rightarrow> (Some err, conn (Rollback (tx\<lparr>conn := c\<rparr>)))
                | (None, c) \<Rightarrow> (None, c))))"

section \<open>The user repository: actions\<close>

text \<open>
  Each action builds the slice of pivot rows with a \<^verbatim>\<open>for ... range\<close> loop that appends
  one row per element of the collection, in order: a \<open>map\<close> over \<^verbatim>\<open>Origin()\<close>.
\<close>

definition AddPermissions ::
  "uuid \<Rightarrow> collections_Permission \<Rightarrow> Database \<Rightarrow> error option \<times> Database" where
  "AddPermissions userID permissions db =
     (let userPermissions =
            map (\<lambda>permission. \<lparr>UserPermissions.UserID = userID,
                                PermissionID = Permission.ID permission\<rparr>)
                (Permission_Origin permissions)
      in Create_UserPermissions userPermissions db)"

definition ReplacePermissions ::
  "uuid \<Rightarrow> collections_Permission \<Rightarrow> Database \<Rightarrow> error option \<times> Database" where
  "ReplacePermissions userID permissions =
     Transaction (\<lambda>tx.
       case tx_exec (Delete_UserPermissions_Where
                       (\<lambda>r. UserPermissions.UserID r = userID)) tx of
         (Some err, tx) \<Rightarrow> (Some err, Rollback tx)
       | (None, tx) \<Rightarrow>
           (let userPermissions =
                  map (\<lambda>permission. \<lparr>UserPermissions.UserID = userID,
                                      PermissionID = Permission.ID permission\<rparr>)
                      (Permission_Origin permissions)
            in case tx_exec (Create_UserPermissions userPermissions) tx of
                 (Some err, tx) \<Rightarrow> (Some err, Rollback tx)
               | (None, tx) \<Rightarrow> (None, tx)))"

definition RemovePermissions ::
  "uuid \<Rightarrow> collections_Permission \<Rightarrow> Database \<Rightarrow> error option \<times> Database" where
  "RemovePermissions userID permissions db =
     (let userPermissions =
            map (\<lambda>permission. \<lparr>UserPermissions.UserID = userID,
                                PermissionID = Permission.ID permission\<rparr>)
                (Permission_Origin permissions)
      in Delete_UserPermissions userPermissions db)"

definition ClearPermissions :: "uuid \<Rightarrow> Database \<Rightarrow> error option \<times> Database" where
  "ClearPermissions userID db =
     Delete_UserPermissions_Where (\<lambda>r. UserPermissions.UserID r = userID) db"

definition AddRoles ::
  "uuid \<Rightarrow> collections_Role \<Rightarrow> Database \<Rightarrow> error option \<times> Database" where
  "AddRoles userID roles db =
     (let userRoles =
            map (\<lambda>role. \<lparr>UserRoles.UserID = userID, RoleID = Role.ID role\<rparr>)
                (Role_Origin roles)
      in Create_UserRoles userRoles db)"

definition ReplaceRoles ::
  "uuid \<Rightarrow> collections_Role \<Rightarrow> Database \<Rightarrow> error option \<times> Database" where
  "ReplaceRoles userID roles =
     Transaction (\<lambda>tx.
       case tx_exec (Delete_UserRoles_Where (\<lambda>r. UserRoles.UserID r = userID)) tx of
         (Some err, tx) \<Rightarrow> (Some err, Rollback tx)
       | (None, tx) \<Rightarrow>
           (let userRoles =
                  map (\<lambda>role. \<lparr>UserRoles.UserID = userID, RoleID = Role.ID role\<rparr>)
                      (Role_Origin roles)
            in case tx_exec (Create_UserRoles userRoles) tx of
                 (Some err, tx) \<Rightarrow> (Some err, Rollback tx)
               | (None, tx) \<Rightarrow> (None, tx)))"

definition RemoveRoles ::
  "uuid \<Rightarrow> collections_Role \<Rightarrow> Database \<Rightarrow> error option \<times> Database" where
  "RemoveRoles userID roles db =
     (let userRoles =
            map (\<lambda>role. \<lparr>UserRoles.UserID = userID, RoleID = Role.ID role\<rparr>)
                (Role_Origin roles)
      in Delete_UserRoles userRoles db)"

definition ClearRoles :: "uuid \<Rightarrow> Database \<Rightarrow> error option \<times> Database" where
  "ClearRoles userID db =
     Delete_UserRoles_Where (\<lambda>r. UserRoles.UserID r = userID) db"

section \<open>The user repository: controls\<close>

text \<open>
  Each control declares \<^verbatim>\<open>var count int64\<close> (zero), lets the store count into it, and
  returns a comparison on \<^verbatim>\<open>count\<close> together with the store's error.
\<close>

definition HasRole :: "uuid \<Rightarrow> Role \<Rightarrow> Database \<Rightarrow> bool \<times> error option \<times> Database" where
  "HasRole userID role db =
     (case Count_user_roles
             (\<lambda>r. UserRoles.UserID r = userID \<and> RoleID r = Role.ID role) 0 db of
        (count, err, db') \<Rightarrow> (count > 0, err, db'))"

definition HasAllRoles ::
  "uuid \<Rightarrow> collections_Role \<Rightarrow> Database \<Rightarrow> bool \<times> error option \<times> Database" where
  "HasAllRoles userID roles db =
     (case Count_user_roles
             (\<lambda>r. UserRoles.UserID r = userID \<and> RoleID r \<in> set (Role_IDs roles)) 0 db of
        (count, err, db') \<Rightarrow> (Role_Len roles = count, err, db'))"

definition HasAnyRoles ::
  "uuid \<Rightarrow> collections_Role \<Rightarrow> Database \<Rightarrow> bool \<times> error option \<times> Database" where
  "HasAnyRoles userID roles db =
     (case Count_user_roles
             (\<lambda>r. UserRoles.UserID r = userID \<and> RoleID r \<in> set (Role_IDs roles)) 0 db of
        (count, err, db') \<Rightarrow> (count > 0, err, db'))"

definition HasDirectPermission ::
  "uuid \<Rightarrow> Permission \<Rightarrow> Database \<Rightarrow> bool \<times> error option \<times> Database" where
  "HasDirectPermission userID permission db =
     (case Count_user_permissions
             (\<lambda>r. UserPermissions.UserID r = userID
                   \<and> PermissionID r = Permission.ID permission) 0 db of
        (count, err, db') \<Rightarrow> (count > 0, err, db'))"

definition HasAllDirectPermissions ::
  "uuid \<Rightarrow> collections_Permission \<Rightarrow> Database \<Rightarrow> bool \<times> error option \<times> Database" where
  "HasAllDirectPermissions userID permissions db =
     (case Count_user_permissions
             (\<lambda>r. UserPermissions.UserID r = userID
                   \<and> PermissionID r \<in> set (Permission_IDs permissions)) 0 db of
        (count, err, db') \<Rightarrow> (Permission_Len permissions = count, err, db'))"

definition HasAnyDirectPermissions ::
  "uuid \<Rightarrow> collections_Permission \<Rightarrow> Database \<Rightarrow> bool \<times> error option \<times> Database" where
  "HasAnyDirectPermissions userID permissions db =
     (case Count_user_permissions
             (\<lambda>r. UserPermissions.UserID r = userID
                   \<and> PermissionID r \<in> set (Permission_IDs permissions)) 0 db of
        (count, err, db') \<Rightarrow> (count > 0, err, db'))"

section \<open>Auxiliary facts\<close>

lemmas store_defs = next_fault_def exec_stmt_def Create_UserRoles_def
  Create_UserPermissions_def Delete_UserRoles_Where_def Delete_UserPermissions_Where_def
  Delete_UserRoles_def Delete_UserPermissions_def Count_user_roles_def
  Count_user_permissions_def Rollback_def tx_exec_def Transaction_def

lemmas repo_defs = AddRoles_def AddPermissions_def RemoveRoles_def RemovePermissions_def
  ClearRoles_def ClearPermissions_def ReplaceRoles_def ReplacePermissions_def
  HasRole_def HasAllRoles_def HasAnyRoles_def HasDirectPermission_def
  HasAllDirectPermissions_def HasAnyDirectPermissions_def
  Role_Origin_def Role_IDs_def Role_Len_def
  Permission_Origin_def Permission_IDs_def Permission_Len_def

subsection \<open>The conflict-ignoring insert\<close>

lemma set_insert_ignore: "set (insert_ignore rs tbl) = set tbl \<union> set rs"
  by (induction rs arbitrary: tbl) auto

text \<open>The primary key stays a key: a table without repeated rows keeps none.\<close>

lemma distinct_insert_ignore: "distinct tbl \<Longrightarrow> distinct (insert_ignore rs tbl)"
  by (induction rs arbitrary: tbl) auto

lemma filter_insert_ignore:
  "(\<And>r. r \<in> set rs \<Longrightarrow> \<not> P r) \<Longrightarrow> filter P (insert_ignore rs tbl) = filter P tbl"
  by (induction rs arbitrary: tbl) auto

lemma insert_ignore_absorb: "set rs \<subseteq> set tbl \<Longrightarrow> insert_ignore rs tbl = tbl"
  by (induction rs arbitrary: tbl) auto

lemma insert_ignore_twice: "insert_ignore rs (insert_ignore rs tbl) = insert_ignore rs tbl"
  by (rule insert_ignore_absorb) (simp add: set_insert_ignore)

subsection \<open>Rows of one user\<close>

lemma UserRoles_eq:
  "(r = \<lparr>UserRoles.UserID = u, RoleID = x\<rparr>) = (UserRoles.UserID r = u \<and> RoleID r = x)"
  by (cases r) auto

lemma UserPermissions_eq:
  "(r = \<lparr>UserPermissions.UserID = u, PermissionID = x\<rparr>)
     = (UserPermissions.UserID r = u \<and> PermissionID r = x)"
  by (cases r) auto

lemma mem_role_rows:
  "(r \<in> (\<lambda>role. \<lparr>UserRoles.UserID = u, RoleID = Role.ID role\<rparr>) ` set R)
     = (UserRoles.UserID r = u \<and> RoleID r \<in> set (Role_IDs R))"
  by (auto simp: UserRoles_eq Role_IDs_def)

lemma mem_permission_rows:
  "(r \<in> (\<lambda>p. \<lparr>UserPermissions.UserID = u, PermissionID = Permission.ID p\<rparr>) ` set P)
     = (UserPermissions.UserID r = u \<and> PermissionID r \<in> set (Permission_IDs P))"
  by (auto simp: UserPermissions_eq Permission_IDs_def)

lemma filter_other_insert_roles:
  "filter (\<lambda>r. UserRoles.UserID r \<noteq> u)
     (insert_ignore (map (\<lambda>role. \<lparr>UserRoles.UserID = u, RoleID = Role.ID role\<rparr>) R) tbl)
   = filter (\<lambda>r. UserRoles.UserID r \<noteq> u) tbl"
  by (rule filter_insert_ignore) auto

lemma filter_other_insert_permissions:
  "filter (\<lambda>r. UserPermissions.UserID r \<noteq> u)
     (insert_ignore
        (map (\<lambda>p. \<lparr>UserPermissions.UserID = u, PermissionID = Permission.ID p\<rparr>) P) tbl)
   = filter (\<lambda>r. UserPermissions.UserID r \<noteq> u) tbl"
  by (rule filter_insert_ignore) auto

text \<open>The keys a slice delete lists, for the slice an action builds.\<close>

lemma keyed_role_rows:
  "(r \<in> set (filter (\<lambda>r. \<not> (UserRoles.UserID r = 0 \<and> RoleID r = 0))
                 (map (\<lambda>role. \<lparr>UserRoles.UserID = u, RoleID = Role.ID role\<rparr>) R)))
     = (UserRoles.UserID r = u \<and> RoleID r \<in> set (Role_IDs R)
        \<and> \<not> (UserRoles.UserID r = 0 \<and> RoleID r = 0))"
  by (auto simp: UserRoles_eq Role_IDs_def)

lemma keyed_permission_rows:
  "(r \<in> set (filter (\<lambda>r. \<not> (UserPermissions.UserID r = 0 \<and> PermissionID r = 0))
                 (map (\<lambda>p. \<lparr>UserPermissions.UserID = u,
                             PermissionID = Permission.ID p\<rparr>) P)))
     = (UserPermissions.UserID r = u \<and> PermissionID r \<in> set (Permission_IDs P)
        \<and> \<not> (UserPermissions.UserID r = 0 \<and> PermissionID r = 0))"
  by (auto simp: UserPermissions_eq Permission_IDs_def)


lemma filter_other_delete_roles:
  "filter (\<lambda>r. UserRoles.UserID r \<noteq> u)
     (filter (\<lambda>r. r \<notin> set (filter (\<lambda>r. \<not> (UserRoles.UserID r = 0 \<and> RoleID r = 0))
                (map (\<lambda>role. \<lparr>UserRoles.UserID = u, RoleID = Role.ID role\<rparr>) R))) tbl)
   = filter (\<lambda>r. UserRoles.UserID r \<noteq> u) tbl"
  unfolding filter_filter by (rule filter_cong) (auto simp: keyed_role_rows)

lemma filter_other_delete_permissions:
  "filter (\<lambda>r. UserPermissions.UserID r \<noteq> u)
     (filter (\<lambda>r. r \<notin> set (filter
                (\<lambda>r. \<not> (UserPermissions.UserID r = 0 \<and> PermissionID r = 0))
                (map (\<lambda>p. \<lparr>UserPermissions.UserID = u,
                            PermissionID = Permission.ID p\<rparr>) P))) tbl)
   = filter (\<lambda>r. UserPermissions.UserID r \<noteq> u) tbl"
  unfolding filter_filter by (rule filter_cong) (auto simp: keyed_permission_rows)


subsection \<open>What a replace leaves behind\<close>

lemma ReplaceRoles_ok:
  assumes "ReplaceRoles u R db = (None, db')"
  shows "user_roles db' =
           insert_ignore (map (\<lambda>role. \<lparr>UserRoles.UserID = u, RoleID = Role.ID role\<rparr>) R)
             (filter (\<lambda>r. UserRoles.UserID r \<noteq> u) (user_roles db))"
    and "user_permissions db' = user_permissions db"
  using assms
  by (auto simp: ReplaceRoles_def store_defs Role_Origin_def split: list.splits option.splits)

lemma ReplaceRoles_fail:
  assumes "ReplaceRoles u R db = (Some e, db')"
  shows "user_roles db' = user_roles db"
    and "user_permissions db' = user_permissions db"
  using assms
  by (auto simp: ReplaceRoles_def store_defs Role_Origin_def split: list.splits option.splits)

lemma ReplacePermissions_ok:
  assumes "ReplacePermissions u P db = (None, db')"
  shows "user_permissions db' =
           insert_ignore
             (map (\<lambda>p. \<lparr>UserPermissions.UserID = u, PermissionID = Permission.ID p\<rparr>) P)
             (filter (\<lambda>r. UserPermissions.UserID r \<noteq> u) (user_permissions db))"
    and "user_roles db' = user_roles db"
  using assms
  by (auto simp: ReplacePermissions_def store_defs Permission_Origin_def
      split: list.splits option.splits)

lemma ReplacePermissions_fail:
  assumes "ReplacePermissions u P db = (Some e, db')"
  shows "user_roles db' = user_roles db"
    and "user_permissions db' = user_permissions db"
  using assms
  by (auto simp: ReplacePermissions_def store_defs Permission_Origin_def
      split: list.splits option.splits)

subsection \<open>Frame of each action\<close>

lemma AddRoles_frame:
  "filter (\<lambda>r. UserRoles.UserID r \<noteq> u) (user_roles (snd (AddRoles u R db)))
     = filter (\<lambda>r. UserRoles.UserID r \<noteq> u) (user_roles db)
   \<and> user_permissions (snd (AddRoles u R db)) = user_permissions db"
  by (auto simp: AddRoles_def store_defs Role_Origin_def filter_other_insert_roles
      split: list.splits option.splits)

lemma AddPermissions_frame:
  "filter (\<lambda>r. UserPermissions.UserID r \<noteq> u)
       (user_permissions (snd (AddPermissions u P db)))
     = filter (\<lambda>r. UserPermissions.UserID r \<noteq> u) (user_permissions db)
   \<and> user_roles (snd (AddPermissions u P db)) = user_roles db"
  by (auto simp: AddPermissions_def store_defs Permission_Origin_def
      filter_other_insert_permissions split: list.splits option.splits)

lemma ReplaceRoles_frame:
  "filter (\<lambda>r. UserRoles.UserID r \<noteq> u) (user_roles (snd (ReplaceRoles u R db)))
     = filter (\<lambda>r. UserRoles.UserID r \<noteq> u) (user_roles db)
   \<and> user_permissions (snd (ReplaceRoles u R db)) = user_permissions db"
proof (cases "ReplaceRoles u R db")
  case (Pair e db')
  show ?thesis
  proof (cases e)
    case None
    with Pair ReplaceRoles_ok[of u R db db'] show ?thesis
      by (simp add: filter_other_insert_roles)
  next
    case (Some err)
    with Pair ReplaceRoles_fail[of u R db err db'] show ?thesis by simp
  qed
qed

lemma ReplacePermissions_frame:
  "filter (\<lambda>r. UserPermissions.UserID r \<noteq> u)
       (user_permissions (snd (ReplacePermissions u P db)))
     = filter (\<lambda>r. UserPermissions.UserID r \<noteq> u) (user_permissions db)
   \<and> user_roles (snd (ReplacePermissions u P db)) = user_roles db"
proof (cases "ReplacePermissions u P db")
  case (Pair e db')
  show ?thesis
  proof (cases e)
    case None
    with Pair ReplacePermissions_ok[of u P db db'] show ?thesis
      by (simp add: filter_other_insert_permissions)
  next
    case (Some err)
    with Pair ReplacePermissions_fail[of u P db err db'] show ?thesis by simp
  qed
qed

lemma RemoveRoles_frame:
  "filter (\<lambda>r. UserRoles.UserID r \<noteq> u) (user_roles (snd (RemoveRoles u R db)))
     = filter (\<lambda>r. UserRoles.UserID r \<noteq> u) (user_roles db)
   \<and> user_permissions (snd (RemoveRoles u R db)) = user_permissions db"
proof -
  let ?keys = "filter (\<lambda>r. \<not> (UserRoles.UserID r = 0 \<and> RoleID r = 0))
                 (map (\<lambda>role. \<lparr>UserRoles.UserID = u, RoleID = Role.ID role\<rparr>) R)"
  show ?thesis
  proof (cases "?keys = []")
    case True
    then show ?thesis
      by (simp add: RemoveRoles_def Delete_UserRoles_def Role_Origin_def)
  next
    case False
    then have "RemoveRoles u R db = Delete_UserRoles_Where (\<lambda>r. r \<in> set ?keys) db"
      by (simp add: RemoveRoles_def Delete_UserRoles_def Role_Origin_def)
    then show ?thesis
      using filter_other_delete_roles[of u R "user_roles db"]
      by (auto simp: Delete_UserRoles_Where_def exec_stmt_def next_fault_def
          split: list.splits option.splits)
  qed
qed

lemma RemovePermissions_frame:
  "filter (\<lambda>r. UserPermissions.UserID r \<noteq> u)
       (user_permissions (snd (RemovePermissions u P db)))
     = filter (\<lambda>r. UserPermissions.UserID r \<noteq> u) (user_permissions db)
   \<and> user_roles (snd (RemovePermissions u P db)) = user_roles db"
proof -
  let ?keys = "filter (\<lambda>r. \<not> (UserPermissions.UserID r = 0 \<and> PermissionID r = 0))
                 (map (\<lambda>p. \<lparr>UserPermissions.UserID = u,
                             PermissionID = Permission.ID p\<rparr>) P)"
  show ?thesis
  proof (cases "?keys = []")
    case True
    then show ?thesis
      by (simp add: RemovePermissions_def Delete_UserPermissions_def Permission_Origin_def)
  next
    case False
    then have "RemovePermissions u P db
                 = Delete_UserPermissions_Where (\<lambda>r. r \<in> set ?keys) db"
      by (simp add: RemovePermissions_def Delete_UserPermissions_def Permission_Origin_def)
    then show ?thesis
      using filter_other_delete_permissions[of u P "user_permissions db"]
      by (auto simp: Delete_UserPermissions_Where_def exec_stmt_def next_fault_def
          split: list.splits option.splits)
  qed
qed

lemma ClearRoles_frame:
  "filter (\<lambda>r. UserRoles.UserID r \<noteq> u) (user_roles (snd (ClearRoles u db)))
     = filter (\<lambda>r. UserRoles.UserID r \<noteq> u) (user_roles db)
   \<and> user_permissions (snd (ClearRoles u db)) = user_permissions db"
  by (auto simp: ClearRoles_def store_defs split: list.splits option.splits)

lemma ClearPermissions_frame:
  "filter (\<lambda>r. UserPermissions.UserID r \<noteq> u)
       (user_permissions (snd (ClearPermissions u db)))
     = filter (\<lambda>r. UserPermissions.UserID r \<noteq> u) (user_permissions db)
   \<and> user_roles (snd (ClearPermissions u db)) = user_roles db"
  by (auto simp: ClearPermissions_def store_defs split: list.splits option.splits)

subsection \<open>Counting the rows just inserted\<close>

lemma count_inserted_roles:
  assumes "distinct tbl" and "distinct (Role_IDs R)"
  shows "length (filter (\<lambda>r. UserRoles.UserID r = u \<and> RoleID r \<in> set (Role_IDs R))
           (insert_ignore
              (map (\<lambda>role. \<lparr>UserRoles.UserID = u, RoleID = Role.ID role\<rparr>) R) tbl))
         = length R"
proof -
  let ?mk = "\<lambda>role. \<lparr>UserRoles.UserID = u, RoleID = Role.ID role\<rparr>"
  let ?T = "insert_ignore (map ?mk R) tbl"
  let ?P = "\<lambda>r. UserRoles.UserID r = u \<and> RoleID r \<in> set (Role_IDs R)"
  have d: "distinct (filter ?P ?T)"
    using assms(1) by (simp add: distinct_insert_ignore)
  have "set (filter ?P ?T) = ?mk ` set R"
    by (auto simp: set_insert_ignore mem_role_rows[symmetric])
  then have "length (filter ?P ?T) = card (?mk ` set R)"
    using distinct_card[OF d] by simp
  also have "?mk ` set R = (\<lambda>i. \<lparr>UserRoles.UserID = u, RoleID = i\<rparr>) ` set (Role_IDs R)"
    by (simp add: Role_IDs_def image_image)
  also have "card \<dots> = card (set (Role_IDs R))"
    by (rule card_image) (simp add: inj_on_def)
  also have "\<dots> = length R"
    using distinct_card[OF assms(2)] by (simp add: Role_IDs_def)
  finally show ?thesis .
qed

text \<open>
  On a collection without repeated role IDs, and a table that respects its primary key,
  the roles just added are all found.
\<close>

lemma AddRoles_HasAllRoles_distinct:
  assumes "distinct (user_roles db)" and "distinct (Role_IDs R)"
    and "AddRoles u R db = (None, db1)" and "fst (next_fault db1) = None"
  shows "fst (HasAllRoles u R db1) = True"
proof -
  have "user_roles db1 =
          insert_ignore (map (\<lambda>role. \<lparr>UserRoles.UserID = u, RoleID = Role.ID role\<rparr>) R)
            (user_roles db)"
    using assms(3)
    by (auto simp: AddRoles_def store_defs Role_Origin_def split: list.splits option.splits)
  then have "length (filter (\<lambda>r. UserRoles.UserID r = u \<and> RoleID r \<in> set (Role_IDs R))
                      (user_roles db1)) = length R"
    using count_inserted_roles[OF assms(1,2)] by simp
  then show ?thesis
    using assms(4)
    by (auto simp: HasAllRoles_def Count_user_roles_def Role_Len_def next_fault_def
        split: list.splits option.splits)
qed

section \<open>Claims\<close>

text \<open>
  C1. The insert step of a replace fails after its delete step succeeded: the store
  lets the transaction begin, executes the delete, and refuses the insert with \<open>err\<close>.
  Then \<^verbatim>\<open>ReplacePermissions\<close> returns \<open>err\<close> and leaves both tables exactly as they were
  before the call (the delete is undone, the user's permissions are not empty unless
  they were before); the same holds for \<^verbatim>\<open>ReplaceRoles\<close>. Only the three outcomes
  the store has given are gone from the handle.
\<close>

theorem Replace_insert_failure_rolls_back:
  assumes "faults db = None # None # Some err # fs"
  shows "ReplacePermissions userID permissions db = (Some err, db\<lparr>faults := fs\<rparr>)
       \<and> ReplaceRoles userID roles db = (Some err, db\<lparr>faults := fs\<rparr>)"
  using assms by (simp add: ReplacePermissions_def ReplaceRoles_def store_defs)

text \<open>
  Witness for C1: user 7 holds permission 4 and roles 1 and 2; the insert of the
  replacement fails with a deadlock, and every row is still there afterwards.
\<close>

theorem Replace_insert_failure_rolls_back_witness:
  "faults \<lparr>user_roles = [\<lparr>UserRoles.UserID = 7, RoleID = 1\<rparr>,
                          \<lparr>UserRoles.UserID = 7, RoleID = 2\<rparr>],
           user_permissions = [\<lparr>UserPermissions.UserID = 7, PermissionID = 4\<rparr>],
           faults = [None, None, Some (StorageError ''deadlock'')]\<rparr>
     = None # None # Some (StorageError ''deadlock'') # []
   \<and> ReplacePermissions 7 [\<lparr>Permission.ID = 6\<rparr>]
        \<lparr>user_roles = [\<lparr>UserRoles.UserID = 7, RoleID = 1\<rparr>,
                        \<lparr>UserRoles.UserID = 7, RoleID = 2\<rparr>],
         user_permissions = [\<lparr>UserPermissions.UserID = 7, PermissionID = 4\<rparr>],
         faults = [None, None, Some (StorageError ''deadlock'')]\<rparr>
     = (Some (StorageError ''deadlock''),
        \<lparr>user_roles = [\<lparr>UserRoles.UserID = 7, RoleID = 1\<rparr>,
                        \<lparr>UserRoles.UserID = 7, RoleID = 2\<rparr>],
         user_permissions = [\<lparr>UserPermissions.UserID = 7, PermissionID = 4\<rparr>],
         faults = []\<rparr>)
   \<and> ReplaceRoles 7 [\<lparr>Role.ID = 3\<rparr>]
        \<lparr>user_roles = [\<lparr>UserRoles.UserID = 7, RoleID = 1\<rparr>,
                        \<lparr>UserRoles.UserID = 7, RoleID = 2\<rparr>],
         user_permissions = [\<lparr>UserPermissions.UserID = 7, PermissionID = 4\<rparr>],
         faults = [None, None, Some (StorageError ''deadlock'')]\<rparr>
     = (Some (StorageError ''deadlock''),
        \<lparr>user_roles = [\<lparr>UserRoles.UserID = 7, RoleID = 1\<rparr>,
                        \<lparr>UserRoles.UserID = 7, RoleID = 2\<rparr>],
         user_permissions = [\<lparr>UserPermissions.UserID = 7, PermissionID = 4\<rparr>],
         faults = []\<rparr>)"
proof -
  let ?db = "\<lparr>user_roles = [\<lparr>UserRoles.UserID = 7, RoleID = 1\<rparr>,
                            \<lparr>UserRoles.UserID = 7, RoleID = 2\<rparr>],
             user_permissions = [\<lparr>UserPermissions.UserID = 7, PermissionID = 4\<rparr>],
             faults = [None, None, Some (StorageError ''deadlock'')]\<rparr>"
  have h: "faults ?db = None # None # Some (StorageError ''deadlock'') # []"
    by simp
  show ?thesis
    using h Replace_insert_failure_rolls_back
              [OF h, of 7 "[\<lparr>Permission.ID = 6\<rparr>]" "[\<lparr>Role.ID = 3\<rparr>]"]
    by simp
qed

text \<open>
  C2. Two replaces of the roles of one user in a row, both returning no error: the
  roles the user holds afterwards are exactly the role IDs of the second collection
  (the empty collection included), and no row of the user carries a role of the first
  collection that is not in the second.
\<close>

theorem ReplaceRoles_twice_leaves_second:
  assumes "ReplaceRoles userID R1 db = (None, db1)"
    and "ReplaceRoles userID R2 db1 = (None, db2)"
  shows "RoleID ` {r \<in> set (user_roles db2). UserRoles.UserID r = userID} = set (Role_IDs R2)
       \<and> {r \<in> set (user_roles db2). UserRoles.UserID r = userID
              \<and> RoleID r \<in> set (Role_IDs R1) - set (Role_IDs R2)} = {}"
proof -
  let ?mk = "\<lambda>role. \<lparr>UserRoles.UserID = userID, RoleID = Role.ID role\<rparr>"
  have "set (user_roles db2) =
          {r \<in> set (user_roles db1). UserRoles.UserID r \<noteq> userID} \<union> ?mk ` set R2"
    using ReplaceRoles_ok(1)[OF assms(2)] by (simp add: set_insert_ignore)
  then have rows: "{r \<in> set (user_roles db2). UserRoles.UserID r = userID} = ?mk ` set R2"
    by auto
  then have "RoleID ` {r \<in> set (user_roles db2). UserRoles.UserID r = userID}
               = set (Role_IDs R2)"
    by (simp add: image_image Role_IDs_def)
  then show ?thesis by auto
qed

text \<open>
  Witness for C2: user 7 holds role 1, user 8 holds role 1; the roles of user 7 are
  replaced by 1 and 2 and then by 2 and 3.
\<close>

theorem ReplaceRoles_twice_leaves_second_witness:
  "ReplaceRoles 7 [\<lparr>Role.ID = 1\<rparr>, \<lparr>Role.ID = 2\<rparr>]
     \<lparr>user_roles = [\<lparr>UserRoles.UserID = 7, RoleID = 1\<rparr>,
                     \<lparr>UserRoles.UserID = 8, RoleID = 1\<rparr>],
      user_permissions = [], faults = []\<rparr>
   = (None, \<lparr>user_roles = [\<lparr>UserRoles.UserID = 8, RoleID = 1\<rparr>,
                            \<lparr>UserRoles.UserID = 7, RoleID = 1\<rparr>,
                            \<lparr>UserRoles.UserID = 7, RoleID = 2\<rparr>],
             user_permissions = [], faults = []\<rparr>)
   \<and> ReplaceRoles 7 [\<lparr>Role.ID = 2\<rparr>, \<lparr>Role.ID = 3\<rparr>]
       \<lparr>user_roles = [\<lparr>UserRoles.UserID = 8, RoleID = 1\<rparr>,
                       \<lparr>UserRoles.UserID = 7, RoleID = 1\<rparr>,
                       \<lparr>UserRoles.UserID = 7, RoleID = 2\<rparr>],
        user_permissions = [], faults = []\<rparr>
   = (None, \<lparr>user_roles = [\<lparr>UserRoles.UserID = 8, RoleID = 1\<rparr>,
                            \<lparr>UserRoles.UserID = 7, RoleID = 2\<rparr>,
                            \<lparr>UserRoles.UserID = 7, RoleID = 3\<rparr>],
             user_permissions = [], faults = []\<rparr>)
   \<and> RoleID ` {r \<in> set [\<lparr>UserRoles.UserID = 8, RoleID = 1\<rparr>,
                          \<lparr>UserRoles.UserID = 7, RoleID = 2\<rparr>,
                          \<lparr>UserRoles.UserID = 7, RoleID = 3\<rparr>]. UserRoles.UserID r = 7}
     = {2, 3}"
proof -
  let ?db = "\<lparr>user_roles = [\<lparr>UserRoles.UserID = 7, RoleID = 1\<rparr>,
                            \<lparr>UserRoles.UserID = 8, RoleID = 1\<rparr>],
             user_permissions = [], faults = []\<rparr>"
  let ?db1 = "\<lparr>user_roles = [\<lparr>UserRoles.UserID = 8, RoleID = 1\<rparr>,
                             \<lparr>UserRoles.UserID = 7, RoleID = 1\<rparr>,
                             \<lparr>UserRoles.UserID = 7, RoleID = 2\<rparr>],
              user_permissions = [], faults = []\<rparr>"
  let ?db2 = "\<lparr>user_roles = [\<lparr>UserRoles.UserID = 8, RoleID = 1\<rparr>,
                             \<lparr>UserRoles.UserID = 7, RoleID = 2\<rparr>,
                             \<lparr>UserRoles.UserID = 7, RoleID = 3\<rparr>],
              user_permissions = [], faults = []\<rparr>"
  have h1: "ReplaceRoles 7 [\<lparr>Role.ID = 1\<rparr>, \<lparr>Role.ID = 2\<rparr>] ?db = (None, ?db1)"
    by (simp add: ReplaceRoles_def store_defs Role_Origin_def)
  have h2: "ReplaceRoles 7 [\<lparr>Role.ID = 2\<rparr>, \<lparr>Role.ID = 3\<rparr>] ?db1 = (None, ?db2)"
    by (simp add: ReplaceRoles_def store_defs Role_Origin_def)
  have "RoleID ` {r \<in> set (user_roles ?db2). UserRoles.UserID r = 7}
          = set (Role_IDs [\<lparr>Role.ID = 2\<rparr>, \<lparr>Role.ID = 3\<rparr>])"
    using ReplaceRoles_twice_leaves_second[OF h1 h2] by (rule conjunct1)
  then have "RoleID ` {r \<in> set [\<lparr>UserRoles.UserID = 8, RoleID = 1\<rparr>,
                                 \<lparr>UserRoles.UserID = 7, RoleID = 2\<rparr>,
                                 \<lparr>UserRoles.UserID = 7, RoleID = 3\<rparr>]. UserRoles.UserID r = 7}
          = {2, 3}"
    by (simp add: Role_IDs_def)
  with h1 h2 show ?thesis by blast
qed

text \<open>
  C3. \<^verbatim>\<open>HasAllRoles\<close> on the empty collection answers true for every user and every
  state of the tables (a user without any role included): no row matches, and 0 = 0.
  The error returned is the store's answer to the count statement, nothing else.
\<close>

theorem HasAllRoles_empty_true:
  "HasAllRoles userID [] db = (True, fst (next_fault db), snd (next_fault db))"
  by (simp add: HasAllRoles_def Count_user_roles_def Role_Len_def Role_IDs_def next_fault_def
      split: list.splits option.splits)

text \<open>
  C4. A successful \<^verbatim>\<open>AddRoles\<close> followed by \<^verbatim>\<open>HasAllRoles\<close> on the same collection should
  answer true, also when a role ID occurs twice in the collection. The code run on
  such a collection: user 7 without any role, the collection holding role 1 twice.
  The insert absorbs the repetition and stores one row; \<^verbatim>\<open>HasAllRoles\<close> then compares
  \<^verbatim>\<open>Len()\<close> = 2 with the one matching row and answers false, although the user holds
  every role of the collection.
\<close>

theorem AddRoles_HasAllRoles_repeated_role:
  "AddRoles 7 [\<lparr>Role.ID = 1\<rparr>, \<lparr>Role.ID = 1\<rparr>]
     \<lparr>user_roles = [], user_permissions = [], faults = []\<rparr>
   = (None, \<lparr>user_roles = [\<lparr>UserRoles.UserID = 7, RoleID = 1\<rparr>],
             user_permissions = [], faults = []\<rparr>)
   \<and> HasAllRoles 7 [\<lparr>Role.ID = 1\<rparr>, \<lparr>Role.ID = 1\<rparr>]
        \<lparr>user_roles = [\<lparr>UserRoles.UserID = 7, RoleID = 1\<rparr>],
         user_permissions = [], faults = []\<rparr>
   = (False, None, \<lparr>user_roles = [\<lparr>UserRoles.UserID = 7, RoleID = 1\<rparr>],
                    user_permissions = [], faults = []\<rparr>)"
  by (simp add: AddRoles_def HasAllRoles_def store_defs Role_Origin_def Role_Len_def
      Role_IDs_def)

text \<open>
  C5. \<^verbatim>\<open>AddRoles\<close> is idempotent: when a call has succeeded, the same call again leaves
  both tables as the first call left them. And adding pairs that are all present
  already changes no table and raises no error of its own: the error returned is the
  store's answer to the one insert statement (none when the store raises none).
\<close>

theorem AddRoles_idempotent:
  "(fst (AddRoles userID R db) = None \<longrightarrow>
      user_roles (snd (AddRoles userID R (snd (AddRoles userID R db))))
        = user_roles (snd (AddRoles userID R db))
    \<and> user_permissions (snd (AddRoles userID R (snd (AddRoles userID R db))))
        = user_permissions (snd (AddRoles userID R db)))
   \<and> ((\<lambda>role. \<lparr>UserRoles.UserID = userID, RoleID = Role.ID role\<rparr>) ` set R
         \<subseteq> set (user_roles db) \<longrightarrow>
      user_roles (snd (AddRoles userID R db)) = user_roles db
    \<and> user_permissions (snd (AddRoles userID R db)) = user_permissions db
    \<and> fst (AddRoles userID R db) = fst (next_fault db))"
proof (intro conjI impI)
  assume "(\<lambda>role. \<lparr>UserRoles.UserID = userID, RoleID = Role.ID role\<rparr>) ` set R
            \<subseteq> set (user_roles db)"
  then have "insert_ignore
               (map (\<lambda>role. \<lparr>UserRoles.UserID = userID, RoleID = Role.ID role\<rparr>) R)
               (user_roles db) = user_roles db"
    by (intro insert_ignore_absorb) simp
  then show "user_roles (snd (AddRoles userID R db)) = user_roles db"
    by (auto simp: AddRoles_def store_defs Role_Origin_def split: list.splits option.splits)
qed (auto simp: AddRoles_def store_defs Role_Origin_def insert_ignore_twice
      split: list.splits option.splits)

text \<open>
  Witness for C5: user 7 holds role 1; roles 1 and 2 are added (role 2 is new, role 1
  is skipped), then added again (both are skipped, no error).
\<close>

theorem AddRoles_idempotent_witness:
  "fst (AddRoles 7 [\<lparr>Role.ID = 1\<rparr>, \<lparr>Role.ID = 2\<rparr>]
          \<lparr>user_roles = [\<lparr>UserRoles.UserID = 7, RoleID = 1\<rparr>],
           user_permissions = [], faults = []\<rparr>) = None
   \<and> user_roles (snd (AddRoles 7 [\<lparr>Role.ID = 1\<rparr>, \<lparr>Role.ID = 2\<rparr>]
          \<lparr>user_roles = [\<lparr>UserRoles.UserID = 7, RoleID = 1\<rparr>],
           user_permissions = [], faults = []\<rparr>))
       = [\<lparr>UserRoles.UserID = 7, RoleID = 1\<rparr>, \<lparr>UserRoles.UserID = 7, RoleID = 2\<rparr>]
   \<and> user_roles (snd (AddRoles 7 [\<lparr>Role.ID = 1\<rparr>, \<lparr>Role.ID = 2\<rparr>]
          (snd (AddRoles 7 [\<lparr>Role.ID = 1\<rparr>, \<lparr>Role.ID = 2\<rparr>]
             \<lparr>user_roles = [\<lparr>UserRoles.UserID = 7, RoleID = 1\<rparr>],
              user_permissions = [], faults = []\<rparr>))))
       = [\<lparr>UserRoles.UserID = 7, RoleID = 1\<rparr>, \<lparr>UserRoles.UserID = 7, RoleID = 2\<rparr>]
   \<and> fst (AddRoles 7 [\<lparr>Role.ID = 1\<rparr>, \<lparr>Role.ID = 2\<rparr>]
          \<lparr>user_roles = [\<lparr>UserRoles.UserID = 7, RoleID = 1\<rparr>,
                          \<lparr>UserRoles.UserID = 7, RoleID = 2\<rparr>],
           user_permissions = [], faults = []\<rparr>) = None"
proof -
  let ?R = "[\<lparr>Role.ID = 1\<rparr>, \<lparr>Role.ID = 2\<rparr>]"
  let ?db = "\<lparr>user_roles = [\<lparr>UserRoles.UserID = 7, RoleID = 1\<rparr>],
             user_permissions = [], faults = []\<rparr>"
  let ?db1 = "\<lparr>user_roles = [\<lparr>UserRoles.UserID = 7, RoleID = 1\<rparr>,
                             \<lparr>UserRoles.UserID = 7, RoleID = 2\<rparr>],
              user_permissions = [], faults = []\<rparr>"
  have once: "AddRoles 7 ?R ?db = (None, ?db1)"
    by (simp add: AddRoles_def store_defs Role_Origin_def)
  have present: "(\<lambda>role. \<lparr>UserRoles.UserID = 7, RoleID = Role.ID role\<rparr>) ` set ?R
                   \<subseteq> set (user_roles ?db1)"
    by simp
  have "user_roles (snd (AddRoles 7 ?R (snd (AddRoles 7 ?R ?db))))
          = user_roles (snd (AddRoles 7 ?R ?db))"
    using AddRoles_idempotent[of 7 ?R ?db] once by simp
  moreover have "fst (AddRoles 7 ?R ?db1) = fst (next_fault ?db1)"
    using AddRoles_idempotent[of 7 ?R ?db1] present by blast
  ultimately show ?thesis
    using once by (simp add: next_fault_def)
qed

text \<open>
  C6. When the store answers the count, \<^verbatim>\<open>HasAnyRoles\<close> is false exactly when no role
  the user holds is in the collection, and true exactly when some row of the user
  carries a role ID of the collection. This holds for every collection, the non-empty
  ones in particular.
\<close>

theorem HasAnyRoles_iff_intersection:
  assumes "fst (snd (HasAnyRoles userID R db)) = None"
  shows "((fst (HasAnyRoles userID R db) = False) =
            (RoleID ` {r \<in> set (user_roles db). UserRoles.UserID r = userID}
               \<inter> set (Role_IDs R) = {}))
       \<and> fst (HasAnyRoles userID R db) =
            (\<exists>r \<in> set (user_roles db).
                UserRoles.UserID r = userID \<and> RoleID r \<in> set (Role_IDs R))"
  using assms
  by (auto simp: HasAnyRoles_def Count_user_roles_def next_fault_def filter_empty_conv
      split: list.splits option.splits)

text \<open>
  Witness for C6: user 7 holds roles 1 and 2; asked about roles 3 and 2 the answer is
  true, the intersection being \<open>{2}\<close>.
\<close>

theorem HasAnyRoles_iff_intersection_witness:
  "fst (snd (HasAnyRoles 7 [\<lparr>Role.ID = 3\<rparr>, \<lparr>Role.ID = 2\<rparr>]
               \<lparr>user_roles = [\<lparr>UserRoles.UserID = 7, RoleID = 1\<rparr>,
                               \<lparr>UserRoles.UserID = 7, RoleID = 2\<rparr>],
                user_permissions = [], faults = []\<rparr>)) = None
   \<and> fst (HasAnyRoles 7 [\<lparr>Role.ID = 3\<rparr>, \<lparr>Role.ID = 2\<rparr>]
               \<lparr>user_roles = [\<lparr>UserRoles.UserID = 7, RoleID = 1\<rparr>,
                               \<lparr>UserRoles.UserID = 7, RoleID = 2\<rparr>],
                user_permissions = [], faults = []\<rparr>) = True
   \<and> RoleID ` {r \<in> set [\<lparr>UserRoles.UserID = 7, RoleID = 1\<rparr>,
                          \<lparr>UserRoles.UserID = 7, RoleID = 2\<rparr>]. UserRoles.UserID r = 7}
       \<inter> set (Role_IDs [\<lparr>Role.ID = 3\<rparr>, \<lparr>Role.ID = 2\<rparr>]) \<noteq> {}"
proof -
  let ?R = "[\<lparr>Role.ID = 3\<rparr>, \<lparr>Role.ID = 2\<rparr>]"
  let ?db = "\<lparr>user_roles = [\<lparr>UserRoles.UserID = 7, RoleID = 1\<rparr>,
                            \<lparr>UserRoles.UserID = 7, RoleID = 2\<rparr>],
             user_permissions = [], faults = []\<rparr>"
  have h: "fst (snd (HasAnyRoles 7 ?R ?db)) = None"
    by (simp add: HasAnyRoles_def Count_user_roles_def next_fault_def)
  have b: "fst (HasAnyRoles 7 ?R ?db) = True"
    by (simp add: HasAnyRoles_def Count_user_roles_def next_fault_def Role_IDs_def)
  have "RoleID ` {r \<in> set (user_roles ?db). UserRoles.UserID r = 7} \<inter> set (Role_IDs ?R)
          \<noteq> {}"
    using HasAnyRoles_iff_intersection[OF h] b by simp
  then show ?thesis using h b by simp
qed




text \<open>
  C8. After a successful \<^verbatim>\<open>ClearRoles\<close> no row of the user is left in the role table,
  and \<^verbatim>\<open>HasAnyRoles\<close> on the resulting state answers false for every collection, the
  non-empty ones in particular.
\<close>

theorem ClearRoles_then_HasAnyRoles_false:
  assumes "fst (ClearRoles userID db) = None"
  shows "filter (\<lambda>r. UserRoles.UserID r = userID) (user_roles (snd (ClearRoles userID db))) = []
       \<and> fst (HasAnyRoles userID R (snd (ClearRoles userID db))) = False"
  using assms
  by (auto simp: ClearRoles_def HasAnyRoles_def store_defs filter_empty_conv
      split: list.splits option.splits)

text \<open>
  Witness for C8: user 7 holds roles 1 and 2, user 8 holds role 2; the roles of user 7
  are cleared, and the question about roles 1 and 2 is answered false without an
  error.
\<close>

theorem ClearRoles_then_HasAnyRoles_false_witness:
  "ClearRoles 7 \<lparr>user_roles = [\<lparr>UserRoles.UserID = 7, RoleID = 1\<rparr>,
                                \<lparr>UserRoles.UserID = 7, RoleID = 2\<rparr>,
                                \<lparr>UserRoles.UserID = 8, RoleID = 2\<rparr>],
                 user_permissions = [], faults = []\<rparr>
     = (None, \<lparr>user_roles = [\<lparr>UserRoles.UserID = 8, RoleID = 2\<rparr>],
               user_permissions = [], faults = []\<rparr>)
   \<and> HasAnyRoles 7 [\<lparr>Role.ID = 1\<rparr>, \<lparr>Role.ID = 2\<rparr>]
        \<lparr>user_roles = [\<lparr>UserRoles.UserID = 8, RoleID = 2\<rparr>],
         user_permissions = [], faults = []\<rparr>
     = (False, None, \<lparr>user_roles = [\<lparr>UserRoles.UserID = 8, RoleID = 2\<rparr>],
                      user_permissions = [], faults = []\<rparr>)"
proof -
  let ?db = "\<lparr>user_roles = [\<lparr>UserRoles.UserID = 7, RoleID = 1\<rparr>,
                            \<lparr>UserRoles.UserID = 7, RoleID = 2\<rparr>,
                            \<lparr>UserRoles.UserID = 8, RoleID = 2\<rparr>],
             user_permissions = [], faults = []\<rparr>"
  let ?db1 = "\<lparr>user_roles = [\<lparr>UserRoles.UserID = 8, RoleID = 2\<rparr>],
              user_permissions = [], faults = []\<rparr>"
  let ?R = "[\<lparr>Role.ID = 1\<rparr>, \<lparr>Role.ID = 2\<rparr>]"
  have c: "ClearRoles 7 ?db = (None, ?db1)"
    by (simp add: ClearRoles_def store_defs)
  then have h: "fst (ClearRoles 7 ?db) = None"
    by simp
  have "fst (HasAnyRoles 7 ?R (snd (ClearRoles 7 ?db))) = False"
    using ClearRoles_then_HasAnyRoles_false[OF h, of ?R] by (rule conjunct2)
  then have "fst (HasAnyRoles 7 ?R ?db1) = False"
    using c by simp
  moreover have "snd (HasAnyRoles 7 ?R ?db1) = (None, ?db1)"
    by (simp add: HasAnyRoles_def Count_user_roles_def next_fault_def)
  ultimately have "HasAnyRoles 7 ?R ?db1 = (False, None, ?db1)"
    by (simp add: prod_eq_iff)
  with c show ?thesis by simp
qed

text \<open>
  C9, as stated, fails: "every control returns false alongside a storage error". The
  count of \<^verbatim>\<open>HasAllRoles\<close> stays zero when the store fails, and on the empty collection
  \<^verbatim>\<open>Len()\<close> is zero too, so the answer returned with the error is true.
\<close>

theorem HasAllRoles_error_not_false:
  "HasAllRoles 7 []
     \<lparr>user_roles = [], user_permissions = [],
      faults = [Some (StorageError ''connection lost'')]\<rparr>
   = (True, Some (StorageError ''connection lost''),
      \<lparr>user_roles = [], user_permissions = [], faults = []\<rparr>)"
  by (simp add: HasAllRoles_def Count_user_roles_def next_fault_def Role_Len_def Role_IDs_def)

text \<open>
  C9, amended. When the store fails the count with \<open>err\<close>, every control returns \<open>err\<close>
  itself and leaves the tables alone. The boolean returned with it is false for
  \<^verbatim>\<open>HasRole\<close>, \<^verbatim>\<open>HasAnyRoles\<close>, \<^verbatim>\<open>HasDirectPermission\<close> and \<^verbatim>\<open>HasAnyDirectPermissions\<close>;
  for \<^verbatim>\<open>HasAllRoles\<close> and \<^verbatim>\<open>HasAllDirectPermissions\<close> it is false when the collection is
  not empty and true when it is empty.
\<close>

theorem controls_on_storage_error:
  assumes "faults db = Some err # fs"
  shows "HasRole userID role db = (False, Some err, db\<lparr>faults := fs\<rparr>)
       \<and> HasAllRoles userID R db = (R = [], Some err, db\<lparr>faults := fs\<rparr>)
       \<and> HasAnyRoles userID R db = (False, Some err, db\<lparr>faults := fs\<rparr>)
       \<and> HasDirectPermission userID permission db = (False, Some err, db\<lparr>faults := fs\<rparr>)
       \<and> HasAllDirectPermissions userID P db = (P = [], Some err, db\<lparr>faults := fs\<rparr>)
       \<and> HasAnyDirectPermissions userID P db = (False, Some err, db\<lparr>faults := fs\<rparr>)"
  using assms
  by (simp add: HasRole_def HasAllRoles_def HasAnyRoles_def HasDirectPermission_def
      HasAllDirectPermissions_def HasAnyDirectPermissions_def Count_user_roles_def
      Count_user_permissions_def next_fault_def Role_Len_def Permission_Len_def)

text \<open>
  Witness for the amended C9: user 7 holds role 1 and permission 4, and the store has
  lost its connection. Asked about what the user does hold, every control answers
  false with the error.
\<close>

theorem controls_on_storage_error_witness:
  "faults \<lparr>user_roles = [\<lparr>UserRoles.UserID = 7, RoleID = 1\<rparr>],
           user_permissions = [\<lparr>UserPermissions.UserID = 7, PermissionID = 4\<rparr>],
           faults = [Some (StorageError ''connection lost'')]\<rparr>
     = Some (StorageError ''connection lost'') # []
   \<and> HasRole 7 \<lparr>Role.ID = 1\<rparr>
        \<lparr>user_roles = [\<lparr>UserRoles.UserID = 7, RoleID = 1\<rparr>],
         user_permissions = [\<lparr>UserPermissions.UserID = 7, PermissionID = 4\<rparr>],
         faults = [Some (StorageError ''connection lost'')]\<rparr>
     = (False, Some (StorageError ''connection lost''),
        \<lparr>user_roles = [\<lparr>UserRoles.UserID = 7, RoleID = 1\<rparr>],
         user_permissions = [\<lparr>UserPermissions.UserID = 7, PermissionID = 4\<rparr>],
         faults = []\<rparr>)
   \<and> HasAllRoles 7 [\<lparr>Role.ID = 1\<rparr>]
        \<lparr>user_roles = [\<lparr>UserRoles.UserID = 7, RoleID = 1\<rparr>],
         user_permissions = [\<lparr>UserPermissions.UserID = 7, PermissionID = 4\<rparr>],
         faults = [Some (StorageError ''connection lost'')]\<rparr>
     = (False, Some (StorageError ''connection lost''),
        \<lparr>user_roles = [\<lparr>UserRoles.UserID = 7, RoleID = 1\<rparr>],
         user_permissions = [\<lparr>UserPermissions.UserID = 7, PermissionID = 4\<rparr>],
         faults = []\<rparr>)
   \<and> HasAnyDirectPermissions 7 [\<lparr>Permission.ID = 4\<rparr>]
        \<lparr>user_roles = [\<lparr>UserRoles.UserID = 7, RoleID = 1\<rparr>],
         user_permissions = [\<lparr>UserPermissions.UserID = 7, PermissionID = 4\<rparr>],
         faults = [Some (StorageError ''connection lost'')]\<rparr>
     = (False, Some (StorageError ''connection lost''),
        \<lparr>user_roles = [\<lparr>UserRoles.UserID = 7, RoleID = 1\<rparr>],
         user_permissions = [\<lparr>UserPermissions.UserID = 7, PermissionID = 4\<rparr>],
         faults = []\<rparr>)"
proof -
  let ?db = "\<lparr>user_roles = [\<lparr>UserRoles.UserID = 7, RoleID = 1\<rparr>],
             user_permissions = [\<lparr>UserPermissions.UserID = 7, PermissionID = 4\<rparr>],
             faults = [Some (StorageError ''connection lost'')]\<rparr>"
  have h: "faults ?db = Some (StorageError ''connection lost'') # []"
    by simp
  show ?thesis
    using h controls_on_storage_error
              [OF h, of 7 "\<lparr>Role.ID = 1\<rparr>" "[\<lparr>Role.ID = 1\<rparr>]" "\<lparr>Permission.ID = 4\<rparr>"
                 "[\<lparr>Permission.ID = 4\<rparr>]"]
    by simp
qed

text \<open>
  C10. Frame of the eight actions. Whatever the call returns, an action on the roles
  of user \<open>userID\<close> leaves the role rows of every other user as they were (the same
  rows, in the same order) and the whole permission table as it was; an action on the
  permissions of \<open>userID\<close> leaves the permission rows of every other user and the whole
  role table as they were.
\<close>

theorem actions_frame:
  "(filter (\<lambda>r. UserRoles.UserID r \<noteq> userID) (user_roles (snd (AddRoles userID R db)))
      = filter (\<lambda>r. UserRoles.UserID r \<noteq> userID) (user_roles db)
    \<and> user_permissions (snd (AddRoles userID R db)) = user_permissions db)
 \<and> (filter (\<lambda>r. UserRoles.UserID r \<noteq> userID) (user_roles (snd (ReplaceRoles userID R db)))
      = filter (\<lambda>r. UserRoles.UserID r \<noteq> userID) (user_roles db)
    \<and> user_permissions (snd (ReplaceRoles userID R db)) = user_permissions db)
 \<and> (filter (\<lambda>r. UserRoles.UserID r \<noteq> userID) (user_roles (snd (RemoveRoles userID R db)))
      = filter (\<lambda>r. UserRoles.UserID r \<noteq> userID) (user_roles db)
    \<and> user_permissions (snd (RemoveRoles userID R db)) = user_permissions db)
 \<and> (filter (\<lambda>r. UserRoles.UserID r \<noteq> userID) (user_roles (snd (ClearRoles userID db)))
      = filter (\<lambda>r. UserRoles.UserID r \<noteq> userID) (user_roles db)
    \<and> user_permissions (snd (ClearRoles userID db)) = user_permissions db)
 \<and> (filter (\<lambda>r. UserPermissions.UserID r \<noteq> userID)
        (user_permissions (snd (AddPermissions userID P db)))
      = filter (\<lambda>r. UserPermissions.UserID r \<noteq> userID) (user_permissions db)
    \<and> user_roles (snd (AddPermissions userID P db)) = user_roles db)
 \<and> (filter (\<lambda>r. UserPermissions.UserID r \<noteq> userID)
        (user_permissions (snd (ReplacePermissions userID P db)))
      = filter (\<lambda>r. UserPermissions.UserID r \<noteq> userID) (user_permissions db)
    \<and> user_roles (snd (ReplacePermissions userID P db)) = user_roles db)
 \<and> (filter (\<lambda>r. UserPermissions.UserID r \<noteq> userID)
        (user_permissions (snd (RemovePermissions userID P db)))
      = filter (\<lambda>r. UserPermissions.UserID r \<noteq> userID) (user_permissions db)
    \<and> user_roles (snd (RemovePermissions userID P db)) = user_roles db)
 \<and> (filter (\<lambda>r. UserPermissions.UserID r \<noteq> userID)
        (user_permissions (snd (ClearPermissions userID db)))
      = filter (\<lambda>r. UserPermissions.UserID r \<noteq> userID) (user_permissions db)
    \<and> user_roles (snd (ClearPermissions userID db)) = user_roles db)"
  using AddRoles_frame[of userID R db] ReplaceRoles_frame[of userID R db]
    RemoveRoles_frame[of userID R db] ClearRoles_frame[of userID db]
    AddPermissions_frame[of userID P db] ReplacePermissions_frame[of userID P db]
    RemovePermissions_frame[of userID P db] ClearPermissions_frame[of userID db]
  by blast

end
